theory Spec2Isabelle
  imports Main
begin

section \<open>Python values, exceptions and outcomes\<close>

text \<open>
  The scripts exchange parsed JSON documents. A JSON value is modelled as the datatype
  below (numbers are integers; a float is outside the model). A Python \<^verbatim>\<open>dict\<close> with
  string keys is a map from keys to values.
\<close>

datatype json =
    JNull
  | JBool bool
  | JNum int
  | JStr string
  | JArr "json list"
  | JObj "(string \<times> json) list"

type_synonym pydict = "string \<rightharpoonup> json"

text \<open>Python truthiness, as \<^verbatim>\<open>if x:\<close> reads a parsed JSON value.\<close>

fun truthy :: "json \<Rightarrow> bool" where
  "truthy JNull = False"
| "truthy (JBool b) = b"
| "truthy (JNum n) = (n \<noteq> 0)"
| "truthy (JStr s) = (s \<noteq> [])"
| "truthy (JArr xs) = (xs \<noteq> [])"
| "truthy (JObj kvs) = (kvs \<noteq> [])"

text \<open>\<^verbatim>\<open>d.get(k, default)\<close>.\<close>

definition dict_get :: "pydict \<Rightarrow> string \<Rightarrow> json \<Rightarrow> json" where
  "dict_get d k dflt = (case d k of None \<Rightarrow> dflt | Some v \<Rightarrow> v)"

text \<open>
  An exception carries its class name, its message (what \<^verbatim>\<open>str(e)\<close> gives) and its
  \<^verbatim>\<open>__cause__\<close> (set by \<^verbatim>\<open>raise ... from e\<close>).
\<close>

datatype pyexc = PyExc (exc_class: string) (exc_msg: string) (exc_cause: "pyexc option")

text \<open>
  A call returns a value, raises an exception, or ends the process through
  \<^verbatim>\<open>sys.exit(code)\<close>.
\<close>

datatype 'a outcome = Returned 'a | Raised pyexc | Exited nat

text \<open>Decimal rendering of a number inside an f-string.\<close>

definition digit_char :: "nat \<Rightarrow> char" where
  "digit_char d = ''0123456789'' ! d"

fun str_nat :: "nat \<Rightarrow> string" where
  "str_nat n =
     (if n < 10 then [digit_char n]
      else str_nat (n div 10) @ [digit_char (n mod 10)])"

declare str_nat.simps [simp del]

text \<open>\<^verbatim>\<open>s.startswith(t)\<close>, \<^verbatim>\<open>s.endswith(t)\<close> and \<^verbatim>\<open>s.lower()\<close> on ASCII text.\<close>

definition startswith :: "string \<Rightarrow> string \<Rightarrow> bool" where
  "startswith s t = (take (length t) s = t)"

definition endswith :: "string \<Rightarrow> string \<Rightarrow> bool" where
  "endswith s t = (length t \<le> length s \<and> drop (length s - length t) s = t)"

definition lower_char :: "char \<Rightarrow> char" where
  "lower_char c =
     (case map_of (zip ''ABCDEFGHIJKLMNOPQRSTUVWXYZ'' ''abcdefghijklmnopqrstuvwxyz'') c of
        None \<Rightarrow> c
      | Some l \<Rightarrow> l)"

definition lower :: "string \<Rightarrow> string" where
  "lower s = map lower_char s"

section \<open>What a run does: events and files\<close>

text \<open>
  The observable actions of a run, in the order they happen:
  \<^item> \<open>Render i prompt path\<close>: the orchestrator calls \<^verbatim>\<open>generate_image\<close> in iteration \<open>i\<close>;
  \<^item> \<open>Request a contents\<close>: attempt \<open>a\<close> of \<^verbatim>\<open>generate_image\<close> calls the external client;
  \<^item> \<open>Sleep d\<close>: \<^verbatim>\<open>time.sleep(d)\<close>;
  \<^item> \<open>Critic i path description\<close>: the orchestrator calls \<^verbatim>\<open>run_critic\<close> in iteration
    \<open>i\<close>, with the styled description the stylist output holds at that moment;
  \<^item> \<open>Saved name\<close>: \<^verbatim>\<open>save_intermediate(_, name, work_dir)\<close> writes \<open>name.json\<close>.

  Image files are a map from path to image; an image is identified by a number. Paths
  are compared as strings.
\<close>

datatype event =
    Render nat string string
  | Request nat string
  | Sleep nat
  | Critic nat string json
  | Saved string

type_synonym files = "string \<rightharpoonup> nat"

section \<open>generate\_image.py\<close>

definition MAX_RETRIES :: nat where
  "MAX_RETRIES = 3"

definition RETRY_BASE_DELAY :: nat where
  "RETRY_BASE_DELAY = 2"

text \<open>
  \<^verbatim>\<open>get_api_key\<close>: the environment's \<^verbatim>\<open>GOOGLE_API_KEY\<close>; an unset or empty key ends the
  process with code 1.
\<close>

definition get_api_key :: "string option \<Rightarrow> string outcome" where
  "get_api_key env =
     (case env of
        None \<Rightarrow> Exited 1
      | Some key \<Rightarrow> if key = [] then Exited 1 else Returned key)"

definition quality_prefix :: string where
  "quality_prefix =
     ''High-resolution academic illustration for a top-tier ML conference paper. '' @
     ''Clean white or very light background. '' @
     ''All text must be perfectly legible in clear sans-serif font. '' @
     ''Professional publication quality. '' @
     ''No watermarks, signatures, or decorative borders. '' @
     ''No figure number or caption text within the image. ''"

text \<open>
  \<^verbatim>\<open>build_prompt(description, aspect_ratio)\<close> is \<^verbatim>\<open>quality_prefix + description\<close>. The
  orchestrator passes whatever value the description variable holds; \<^verbatim>\<open>str + x\<close> raises
  \<^verbatim>\<open>TypeError\<close> unless \<open>x\<close> is a string.
\<close>

definition build_prompt :: "json \<Rightarrow> string \<Rightarrow> pyexc + string" where
  "build_prompt description aspect_ratio =
     (case description of
        JStr s \<Rightarrow> Inr (quality_prefix @ s)
      | _ \<Rightarrow> Inl (PyExc ''TypeError'' ''can only concatenate str to str'' None))"

text \<open>
  The external client's answer to one \<^verbatim>\<open>generate_content\<close> call: it raises, or it
  returns candidates, each a list of parts. A part has inline data (a MIME type and a
  payload) or none. \<^verbatim>\<open>Image.open\<close> on a payload gives an image or raises.
\<close>

datatype payload = Pixels nat | Undecodable pyexc

datatype part = Part "(string \<times> payload) option"

datatype client_result = ClientError pyexc | Response "part list list"

definition no_image_error :: pyexc where
  "no_image_error = PyExc ''RuntimeError'' ''No image data in API response'' None"

text \<open>
  Lines 127-138: the first part with inline data of an image MIME type is opened; the
  loop over the parts returns there (or \<^verbatim>\<open>Image.open\<close> raises there).
\<close>

fun extract_image :: "part list \<Rightarrow> (pyexc + nat) option" where
  "extract_image [] = None"
| "extract_image (Part None # ps) = extract_image ps"
| "extract_image (Part (Some (mime_type, d)) # ps) =
     (if startswith mime_type ''image/''
      then (case d of Pixels img \<Rightarrow> Some (Inr img) | Undecodable e \<Rightarrow> Some (Inl e))
      else extract_image ps)"

text \<open>Lines 133-134: the image is saved as PNG, under a path that ends in \<^verbatim>\<open>.png\<close>.\<close>

definition png_path :: "string \<Rightarrow> string" where
  "png_path p = (if \<not> endswith (lower p) ''.png'' then p @ ''.png'' else p)"

text \<open>
  The body of the \<^verbatim>\<open>try\<close> (lines 116-140) on the client's answer: an error for the
  \<^verbatim>\<open>except\<close> branch, or the saved path and the files after \<^verbatim>\<open>image.save\<close>.
\<close>

definition try_attempt :: "client_result \<Rightarrow> string \<Rightarrow> files \<Rightarrow> pyexc + (string \<times> files)" where
  "try_attempt r path fs =
     (case r of
        ClientError e \<Rightarrow> Inl e
      | Response candidates \<Rightarrow>
          (case candidates of
             [] \<Rightarrow> Inl no_image_error
           | c # _ \<Rightarrow>
               (case extract_image c of
                  None \<Rightarrow> Inl no_image_error
                | Some (Inl e) \<Rightarrow> Inl e
                | Some (Inr img) \<Rightarrow> Inr (png_path path, fs(png_path path \<mapsto> img)))))"

definition exhausted_error :: "pyexc \<Rightarrow> pyexc" where
  "exhausted_error last_error =
     PyExc ''RuntimeError''
       (''Image generation failed after '' @ str_nat MAX_RETRIES @ '' attempts. '' @
        ''Last error: '' @ exc_msg last_error)
       (Some last_error)"

text \<open>
  The retry loop \<^verbatim>\<open>for attempt in range(MAX_RETRIES)\<close> (lines 114-153), by recursion on
  the attempts still to make. Falling off the loop returns \<^verbatim>\<open>None\<close>.
\<close>

fun retry_loop ::
  "(nat \<Rightarrow> client_result) \<Rightarrow> string \<Rightarrow> nat list \<Rightarrow> string \<Rightarrow> files \<Rightarrow>
   string option outcome \<times> files \<times> event list" where
  "retry_loop client prompt [] path fs = (Returned None, fs, [])"
| "retry_loop client prompt (attempt # rest) path fs =
     (case try_attempt (client attempt) path fs of
        Inr (saved, fs') \<Rightarrow> (Returned (Some saved), fs', [Request attempt prompt])
      | Inl last_error \<Rightarrow>
          if attempt < MAX_RETRIES - 1
          then (case retry_loop client prompt rest path fs of
                  (r, fs', evs) \<Rightarrow>
                    (r, fs',
                     Request attempt prompt # Sleep (RETRY_BASE_DELAY * 2 ^ attempt) # evs))
          else (Raised (exhausted_error last_error), fs, [Request attempt prompt]))"

text \<open>
  \<^verbatim>\<open>generate_image(prompt, output_path, aspect_ratio=...)\<close>. The aspect ratio is only
  checked against the known ratios (with a warning); it is not part of the request.
  Creating the client object and the output directory are taken to succeed.
\<close>

definition generate_image ::
  "string option \<Rightarrow> (nat \<Rightarrow> client_result) \<Rightarrow> files \<Rightarrow> string \<Rightarrow> string \<Rightarrow> string \<Rightarrow>
   string option outcome \<times> files \<times> event list" where
  "generate_image env client fs prompt out_path aspect_ratio =
     (case get_api_key env of
        Exited code \<Rightarrow> (Exited code, fs, [])
      | Raised e \<Rightarrow> (Raised e, fs, [])
      | Returned api_key \<Rightarrow> retry_loop client prompt [0..<MAX_RETRIES] out_path fs)"

section \<open>critic.py\<close>

text \<open>
  The external part of \<^verbatim>\<open>run_critic\<close> is the call to the vision model and
  \<^verbatim>\<open>json.loads\<close> on its text: either of them raises, or the text parses to a JSON value.
\<close>

datatype reply = Fails pyexc | Parsed json

text \<open>
  The summary that \<^verbatim>\<open>run_critic\<close> prints reads the parsed result: \<^verbatim>\<open>scores.get(...)\<close>
  needs \<^verbatim>\<open>scores\<close> to be a dict, and the loop over \<^verbatim>\<open>critic_suggestions\<close> slices every
  element (\<^verbatim>\<open>suggestion[:100]\<close>). Iterating a string gives its characters, iterating a
  dict its keys; a list element must be a string or a list.
\<close>

fun sliceable :: "json \<Rightarrow> bool" where
  "sliceable (JStr s) = True"
| "sliceable (JArr xs) = True"
| "sliceable v = False"

fun suggestions_print :: "json \<Rightarrow> bool" where
  "suggestions_print (JArr xs) = list_all sliceable xs"
| "suggestions_print (JStr s) = True"
| "suggestions_print (JObj kvs) = True"
| "suggestions_print v = False"

text \<open>
  \<^verbatim>\<open>run_critic(image_path, methodology, stylist_output, iteration)\<close>: the API key, the
  image file, the model's reply, \<^verbatim>\<open>result["iteration"] = iteration\<close> (which needs a dict;
  \<^verbatim>\<open>json.loads\<close> keeps the last of repeated keys), the printed summary, and the result
  returned as parsed. Nothing compares \<^verbatim>\<open>primary_pass\<close> with the scores or with
  \<^verbatim>\<open>revised_description\<close>.
\<close>

definition run_critic ::
  "string option \<Rightarrow> reply \<Rightarrow> files \<Rightarrow> string \<Rightarrow> string \<Rightarrow> pydict \<Rightarrow> nat \<Rightarrow> pydict outcome" where
  "run_critic env vlm fs image_path methodology stylist_out iteration =
     (case get_api_key env of
        Exited code \<Rightarrow> Exited code
      | Raised e \<Rightarrow> Raised e
      | Returned api_key \<Rightarrow>
          if fs image_path = None then Exited 1
          else
            (case vlm of
               Fails e \<Rightarrow> Raised e
             | Parsed (JObj kvs) \<Rightarrow>
                 (let result = (map_of (rev kvs))(''iteration'' \<mapsto> JNum (int iteration)) in
                  case dict_get result ''scores'' (JObj []) of
                    JObj scores \<Rightarrow>
                      if suggestions_print (dict_get result ''critic_suggestions'' (JArr []))
                      then Returned result
                      else Raised (PyExc ''TypeError'' ''suggestion is not subscriptable'' None)
                  | _ \<Rightarrow> Raised (PyExc ''AttributeError'' ''scores has no attribute get'' None))
             | Parsed _ \<Rightarrow>
                 Raised (PyExc ''TypeError'' ''result does not support item assignment'' None)))"

section \<open>orchestrate.py: the refinement loop\<close>

definition MAX_REFINEMENTS :: nat where
  "MAX_REFINEMENTS = 3"

text \<open>
  \<^verbatim>\<open>determine_aspect_ratio\<close>: \<^verbatim>\<open>mapping.get(visual_intent, "16:9")\<close>. The key is whatever
  the retriever output holds; a list or a dict is unhashable and \<^verbatim>\<open>get\<close> raises.
\<close>

definition determine_aspect_ratio :: "json \<Rightarrow> pyexc + string" where
  "determine_aspect_ratio intent =
     (case intent of
        JStr s \<Rightarrow>
          Inr (case map_of
                 [(''Pipeline/Flow'', ''16:9''), (''Framework Overview'', ''16:9''),
                  (''Detailed Module'', ''3:2''), (''Architecture Diagram'', ''3:2'')] s of
                 None \<Rightarrow> ''16:9''
               | Some r \<Rightarrow> r)
      | JArr xs \<Rightarrow> Inl (PyExc ''TypeError'' ''unhashable type: list'' None)
      | JObj kvs \<Rightarrow> Inl (PyExc ''TypeError'' ''unhashable type: dict'' None)
      | _ \<Rightarrow> Inr ''16:9'')"

text \<open>
  The \<^verbatim>\<open>results\<close> dict of \<^verbatim>\<open>run_diagram_pipeline\<close>: a key that is not set yet is
  \<open>None\<close>. (\<^verbatim>\<open>elapsed_seconds\<close> and \<^verbatim>\<open>work_dir\<close> are left out.)
\<close>

record run_results =
  mode :: string
  iterations :: "pydict list"
  category :: "json option"
  visual_intent :: "json option"
  error :: "string option"
  accepted :: "bool option"
  final_scores :: "json option"
  max_refinements_reached :: "bool option"
  output_path :: "string option"

text \<open>
  What the loop reads and writes: the local \<^verbatim>\<open>current_description\<close>, the stylist output
  (whose \<^verbatim>\<open>styled_description\<close> the loop overwrites), the results, the image files and
  the events so far.
\<close>

record loop_state =
  current_description :: json
  stylist_output :: pydict
  results :: run_results
  disk :: files
  trace :: "event list"

text \<open>
  The outside of a run: the environment's API key, what the image service and the
  critic's model answer in each iteration (and, for the image service, attempt), what
  the bodies of the retriever (in diagram mode), the planner and the stylist come to,
  and the text files the command line can name.
\<close>

record world =
  api_key_env :: "string option"
  image_service :: "nat \<Rightarrow> nat \<Rightarrow> client_result"
  critic_service :: "nat \<Rightarrow> reply"
  retriever_service :: "pydict outcome"
  planner_service :: "pydict outcome"
  stylist_service :: "pydict outcome"
  text_files :: "string \<rightharpoonup> string"

text \<open>
  How an iteration ends: the loop goes on, \<^verbatim>\<open>break\<close>, an exception leaves
  \<^verbatim>\<open>run_diagram_pipeline\<close>, or \<^verbatim>\<open>sys.exit\<close>.
\<close>

datatype flow = Next | Break | Abort pyexc | Exit nat

datatype evaluated = Verdict pydict loop_state | Ended flow loop_state

text \<open>
  Line 128 gives every iteration after the first an image name of its own. The value is
  bound to \<^verbatim>\<open>iter_output\<close> and not read again.
\<close>

definition iter_output :: "string \<Rightarrow> nat \<Rightarrow> string" where
  "iter_output out_path iteration =
     (if iteration = 1 then out_path
      else out_path @ ''.iter'' @ str_nat iteration @ ''.png'')"

text \<open>
  Lines 126-153 of an iteration: build the prompt, call \<^verbatim>\<open>generate_image\<close> with
  \<^verbatim>\<open>output_path\<close> (not with \<^verbatim>\<open>iter_output\<close>), catch \<^verbatim>\<open>RuntimeError\<close>, call \<^verbatim>\<open>run_critic\<close> on
  \<^verbatim>\<open>output_path\<close>, save the verdict and append it to \<^verbatim>\<open>results["iterations"]\<close>.
\<close>

definition render_evaluate ::
  "world \<Rightarrow> string \<Rightarrow> string \<Rightarrow> string \<Rightarrow> nat \<Rightarrow> loop_state \<Rightarrow> evaluated" where
  "render_evaluate w methodology out_path aspect_ratio iteration st =
     (case build_prompt (current_description st) aspect_ratio of
        Inl e \<Rightarrow> Ended (Abort e) st
      | Inr full_prompt \<Rightarrow>
          (case generate_image (api_key_env w) (image_service w iteration) (disk st)
                  full_prompt out_path aspect_ratio of
             (r, fs', evs) \<Rightarrow>
               (let st1 = st\<lparr>disk := fs',
                              trace := trace st @ Render iteration full_prompt out_path # evs\<rparr>
                in case r of
                     Raised e \<Rightarrow>
                       if exc_class e = ''RuntimeError''
                       then Ended Break
                              (st1\<lparr>results := (results st1)\<lparr>error := Some (exc_msg e)\<rparr>\<rparr>)
                       else Ended (Abort e) st1
                   | Exited code \<Rightarrow> Ended (Exit code) st1
                   | Returned result_path \<Rightarrow>
                       (let st2 = st1\<lparr>trace := trace st1 @
                                    [Critic iteration out_path
                                       (dict_get (stylist_output st1) ''styled_description''
                                          (JStr []))]\<rparr>
                        in case run_critic (api_key_env w) (critic_service w iteration) fs'
                                  out_path methodology (stylist_output st1) iteration of
                             Raised e \<Rightarrow> Ended (Abort e) st2
                           | Exited code \<Rightarrow> Ended (Exit code) st2
                           | Returned critic_output \<Rightarrow>
                               Verdict critic_output
                                 (st2\<lparr>trace := trace st2 @
                                         [Saved (''critic_output_iter'' @ str_nat iteration)],
                                       results := (results st2)
                                         \<lparr>iterations :=
                                            iterations (results st2) @ [critic_output]\<rparr>\<rparr>)))))"

text \<open>
  Lines 155-182, the acceptance policy: the test of line 156 is the truthiness of the
  verdict's own \<^verbatim>\<open>primary_pass\<close> field.
\<close>

definition primary_pass :: "pydict \<Rightarrow> bool" where
  "primary_pass critic_output = truthy (dict_get critic_output ''primary_pass'' (JBool False))"

definition accept :: "pydict \<Rightarrow> run_results \<Rightarrow> run_results" where
  "accept critic_output r =
     r\<lparr>accepted := Some True,
       final_scores := Some (dict_get critic_output ''scores'' (JObj []))\<rparr>"

definition acceptance :: "nat \<Rightarrow> pydict \<Rightarrow> loop_state \<Rightarrow> flow \<times> loop_state" where
  "acceptance iteration critic_output st =
     (if primary_pass critic_output
      then (Break, st\<lparr>results := accept critic_output (results st)\<rparr>)
      else if iteration \<ge> MAX_REFINEMENTS
      then (Break,
            st\<lparr>results := (accept critic_output (results st))
                   \<lparr>max_refinements_reached := Some True\<rparr>\<rparr>)
      else
        (let revised = dict_get critic_output ''revised_description'' JNull in
         if truthy revised
         then (Next,
               st\<lparr>current_description := revised,
                  stylist_output := (stylist_output st)(''styled_description'' \<mapsto> revised),
                  trace := trace st @
                    [Saved (''stylist_output_revised_iter'' @ str_nat iteration)]\<rparr>)
         else (Break, st\<lparr>results := accept critic_output (results st)\<rparr>)))"

definition loop_body ::
  "world \<Rightarrow> string \<Rightarrow> string \<Rightarrow> string \<Rightarrow> nat \<Rightarrow> loop_state \<Rightarrow> flow \<times> loop_state" where
  "loop_body w methodology out_path aspect_ratio iteration st =
     (case render_evaluate w methodology out_path aspect_ratio iteration st of
        Ended f st' \<Rightarrow> (f, st')
      | Verdict critic_output st' \<Rightarrow> acceptance iteration critic_output st')"

text \<open>
  \<^verbatim>\<open>for iteration in range(...)\<close>, by recursion on the iterations still to run; the loop
  ends with \<open>Break\<close> when it breaks or runs out of iterations.
\<close>

fun for_loop ::
  "world \<Rightarrow> string \<Rightarrow> string \<Rightarrow> string \<Rightarrow> nat list \<Rightarrow> loop_state \<Rightarrow> flow \<times> loop_state" where
  "for_loop w methodology out_path aspect_ratio [] st = (Break, st)"
| "for_loop w methodology out_path aspect_ratio (iteration # rest) st =
     (case loop_body w methodology out_path aspect_ratio iteration st of
        (Next, st') \<Rightarrow> for_loop w methodology out_path aspect_ratio rest st'
      | (f, st') \<Rightarrow> (f, st'))"

text \<open>
  Lines 117-189: Phase 4 + 5 of \<^verbatim>\<open>run_diagram_pipeline\<close>, from the stylist output, the
  results so far, the files and the events so far, to the returned results.
\<close>

definition refinement ::
  "world \<Rightarrow> string \<Rightarrow> string \<Rightarrow> pydict \<Rightarrow> run_results \<Rightarrow> files \<Rightarrow> event list \<Rightarrow>
   run_results outcome \<times> files \<times> event list" where
  "refinement w methodology out_path stylist_out res fs evs =
     (case stylist_out ''styled_description'' of
        None \<Rightarrow> (Raised (PyExc ''KeyError'' ''styled_description'' None), fs, evs)
      | Some description \<Rightarrow>
          (case determine_aspect_ratio
                  (case visual_intent res of None \<Rightarrow> JStr [] | Some v \<Rightarrow> v) of
             Inl e \<Rightarrow> (Raised e, fs, evs)
           | Inr aspect_ratio \<Rightarrow>
               (case for_loop w methodology out_path aspect_ratio [1..<MAX_REFINEMENTS + 1]
                       \<lparr>current_description = description, stylist_output = stylist_out,
                        results = res, disk = fs, trace = evs\<rparr> of
                  (Abort e, st) \<Rightarrow> (Raised e, disk st, trace st)
                | (Exit code, st) \<Rightarrow> (Exited code, disk st, trace st)
                | (f, st) \<Rightarrow>
                    (Returned ((results st)\<lparr>output_path := Some out_path\<rparr>),
                     disk st, trace st))))"

section \<open>Calls with keyword arguments\<close>

text \<open>
  How Python binds the arguments of a call to a function whose parameters are plain
  names with optional defaults (no \<^verbatim>\<open>*args\<close>, no \<^verbatim>\<open>**kwargs\<close>): positional arguments
  fill the parameters in order; every keyword must name a parameter that has no value
  yet; then too many positional arguments or a parameter left without value and
  default are errors. Each failure is a \<^verbatim>\<open>TypeError\<close> raised before the body runs.
\<close>

definition quoted :: "string \<Rightarrow> string" where
  "quoted s = [CHR 0x27] @ s @ [CHR 0x27]"

fun bind_keywords ::
  "string \<Rightarrow> string list \<Rightarrow> pydict \<Rightarrow> (string \<times> json) list \<Rightarrow> pyexc + pydict" where
  "bind_keywords f names b [] = Inr b"
| "bind_keywords f names b ((k, v) # kws) =
     (if k \<notin> set names
      then Inl (PyExc ''TypeError''
                  (f @ ''() got an unexpected keyword argument '' @ quoted k) None)
      else if b k \<noteq> None
      then Inl (PyExc ''TypeError''
                  (f @ ''() got multiple values for argument '' @ quoted k) None)
      else bind_keywords f names (b(k \<mapsto> v)) kws)"

definition bind_arguments ::
  "string \<Rightarrow> (string \<times> json option) list \<Rightarrow> json list \<Rightarrow> (string \<times> json) list \<Rightarrow>
   pyexc + pydict" where
  "bind_arguments f params pos kws =
     (case bind_keywords f (map fst params) (map_of (zip (map fst params) pos)) kws of
        Inl e \<Rightarrow> Inl e
      | Inr b \<Rightarrow>
          if length params < length pos
          then Inl (PyExc ''TypeError'' (f @ ''() takes too many positional arguments'') None)
          else if list_all (\<lambda>(n, d). \<not> (b n = None \<and> d = None)) params
          then Inr (\<lambda>n. case b n of
                           Some v \<Rightarrow> Some v
                         | None \<Rightarrow> (case map_of params n of Some d \<Rightarrow> d | None \<Rightarrow> None))
          else Inl (PyExc ''TypeError'' (f @ ''() missing required positional arguments'') None))"

section \<open>retriever.py\<close>

text \<open>\<^verbatim>\<open>def run_retriever(methodology: str, mode: str) -> dict\<close>.\<close>

definition run_retriever_params :: "(string \<times> json option) list" where
  "run_retriever_params = [(''methodology'', None), (''mode'', None)]"

definition plot_sentinel :: pydict where
  "plot_sentinel =
     [''category'' \<mapsto> JStr ''plot'', ''visual_intent'' \<mapsto> JStr ''statistical_plot'',
      ''domain_signals'' \<mapsto> JArr [], ''selected_references'' \<mapsto> JArr []]"

text \<open>
  A call of \<^verbatim>\<open>run_retriever\<close> with the given positional and keyword arguments: the
  binding, then the body (the plot-mode sentinel, or the selection by the model).
\<close>

definition run_retriever :: "world \<Rightarrow> json list \<Rightarrow> (string \<times> json) list \<Rightarrow> pydict outcome" where
  "run_retriever w pos kws =
     (case bind_arguments ''run_retriever'' run_retriever_params pos kws of
        Inl e \<Rightarrow> Raised e
      | Inr b \<Rightarrow>
          if b ''mode'' = Some (JStr ''plot'') then Returned plot_sentinel
          else retriever_service w)"

section \<open>orchestrate.py: the pipeline and the command line\<close>

text \<open>
  \<^verbatim>\<open>run_diagram_pipeline(methodology, caption, output_path, work_dir, references_dir)\<close>:
  Phase 1 calls \<^verbatim>\<open>run_retriever(methodology, mode="diagram", references_dir=references_dir)\<close>
  (line 98); Phases 2 and 3 call the planner and the stylist with positional arguments
  that their signatures take; Phases 4 and 5 are the refinement loop.
\<close>

definition run_diagram_pipeline ::
  "world \<Rightarrow> files \<Rightarrow> string \<Rightarrow> string \<Rightarrow> string \<Rightarrow> json \<Rightarrow>
   run_results outcome \<times> files \<times> event list" where
  "run_diagram_pipeline w fs methodology caption out_path references_dir =
     (let res = \<lparr>mode = ''diagram'', iterations = [], category = None,
                 visual_intent = None, error = None, accepted = None, final_scores = None,
                 max_refinements_reached = None, output_path = None\<rparr>
      in case run_retriever w [JStr methodology]
                [(''mode'', JStr ''diagram''), (''references_dir'', references_dir)] of
           Raised e \<Rightarrow> (Raised e, fs, [])
         | Exited code \<Rightarrow> (Exited code, fs, [])
         | Returned retriever_output \<Rightarrow>
             (let res1 = res\<lparr>category := Some (dict_get retriever_output ''category'' (JStr [])),
                             visual_intent :=
                               Some (dict_get retriever_output ''visual_intent'' (JStr []))\<rparr>
              in case planner_service w of
                   Raised e \<Rightarrow> (Raised e, fs, [Saved ''retriever_output''])
                 | Exited code \<Rightarrow> (Exited code, fs, [Saved ''retriever_output''])
                 | Returned planner_output \<Rightarrow>
                     (case stylist_service w of
                        Raised e \<Rightarrow>
                          (Raised e, fs, [Saved ''retriever_output'', Saved ''planner_output''])
                      | Exited code \<Rightarrow>
                          (Exited code, fs, [Saved ''retriever_output'', Saved ''planner_output''])
                      | Returned stylist_out \<Rightarrow>
                          refinement w methodology out_path stylist_out res1 fs
                            [Saved ''retriever_output'', Saved ''planner_output'',
                             Saved ''stylist_output''])))"

text \<open>
  \<^verbatim>\<open>print_summary\<close> raises only where it calls \<^verbatim>\<open>scores.get\<close> on final scores that are
  truthy and not a dict.
\<close>

definition print_summary :: "run_results \<Rightarrow> pyexc option" where
  "print_summary r =
     (if mode r = ''diagram''
      then (case final_scores r of
              None \<Rightarrow> None
            | Some (JObj scores) \<Rightarrow> None
            | Some v \<Rightarrow>
                if truthy v
                then Some (PyExc ''AttributeError'' ''scores has no attribute get'' None)
                else None)
      else None)"

text \<open>
  Lines 344-346 of \<^verbatim>\<open>main\<close>, after the pipeline: results that were returned are saved
  and summarised; an exception or an exit passes through.
\<close>

definition finish ::
  "run_results outcome \<times> files \<times> event list \<Rightarrow> unit outcome \<times> files \<times> event list" where
  "finish run =
     (case run of
        (Returned r, fs, evs) \<Rightarrow>
          (case print_summary r of
             None \<Rightarrow> (Returned (), fs, evs @ [Saved ''pipeline_results''])
           | Some e \<Rightarrow> (Raised e, fs, evs @ [Saved ''pipeline_results'']))
      | (Raised e, fs, evs) \<Rightarrow> (Raised e, fs, evs)
      | (Exited code, fs, evs) \<Rightarrow> (Exited code, fs, evs))"

text \<open>
  The exit code of the process: 0 when \<^verbatim>\<open>main\<close> returns, the argument of
  \<^verbatim>\<open>sys.exit\<close>, and 1 when an exception is not caught.
\<close>

fun exit_code :: "'a outcome \<Rightarrow> nat" where
  "exit_code (Returned x) = 0"
| "exit_code (Raised e) = 1"
| "exit_code (Exited code) = code"

text \<open>
  The command line in diagram mode (\<^verbatim>\<open>--mode diagram\<close>, the default): the parsed
  arguments that \<^verbatim>\<open>main\<close> reads. \<^verbatim>\<open>strip()\<close> removes ASCII white space at both ends.
\<close>

record cli_args =
  arg_methodology :: "string option"
  arg_methodology_file :: "string option"
  arg_caption :: string
  arg_output :: string
  arg_references_dir :: "string option"

definition strip :: "string \<Rightarrow> string" where
  "strip s =
     (let space = (\<lambda>c. c \<in> set [CHR '' '', CHR 0x09, CHR 0x0A, CHR 0x0B, CHR 0x0C, CHR 0x0D,
                                  CHR 0x1C, CHR 0x1D, CHR 0x1E, CHR 0x1F])
      in rev (dropWhile space (rev (dropWhile space s))))"

definition methodology_text :: "world \<Rightarrow> cli_args \<Rightarrow> string option" where
  "methodology_text w args =
     (case arg_methodology_file args of
        Some (c # cs) \<Rightarrow> map_option strip (text_files w (c # cs))
      | _ \<Rightarrow>
          (case arg_methodology args of
             Some (c # cs) \<Rightarrow> Some (c # cs)
           | _ \<Rightarrow> None))"

definition main :: "world \<Rightarrow> files \<Rightarrow> cli_args \<Rightarrow> unit outcome \<times> files \<times> event list" where
  "main w fs args =
     (case methodology_text w args of
        None \<Rightarrow> (Exited 1, fs, [])
      | Some methodology \<Rightarrow>
          finish (run_diagram_pipeline w fs methodology (arg_caption args) (arg_output args)
                    (case arg_references_dir args of None \<Rightarrow> JNull | Some d \<Rightarrow> JStr d)))"

section \<open>Reading a run\<close>

text \<open>
  The iterations in which the image renderer (\<^verbatim>\<open>generate_image\<close>) and the critic were
  called, in the order of the calls.
\<close>

fun renders :: "event list \<Rightarrow> nat list" where
  "renders [] = []"
| "renders (Render i p path # evs) = i # renders evs"
| "renders (e # evs) = renders evs"

fun critics :: "event list \<Rightarrow> nat list" where
  "critics [] = []"
| "critics (Critic i path d # evs) = i # critics evs"
| "critics (e # evs) = critics evs"

text \<open>The iteration and the output path of every call of the renderer.\<close>

fun render_paths :: "event list \<Rightarrow> (nat \<times> string) list" where
  "render_paths [] = []"
| "render_paths (Render i p path # evs) = (i, path) # render_paths evs"
| "render_paths (e # evs) = render_paths evs"

definition returned :: "'a outcome \<Rightarrow> 'a option" where
  "returned r = (case r of Returned x \<Rightarrow> Some x | _ \<Rightarrow> None)"

text \<open>
  The rule of the specification for a verdict, in its words: \<^emph>\<open>primary pass\<close> if and only
  if faithfulness is at least 7 and readability is at least 7. It is here to be compared
  with \<open>primary_pass\<close>, the test the orchestrator makes.
\<close>

definition score :: "pydict \<Rightarrow> string \<Rightarrow> json" where
  "score v name =
     (case dict_get v ''scores'' (JObj []) of
        JObj kvs \<Rightarrow> (case map_of (rev kvs) name of Some x \<Rightarrow> x | None \<Rightarrow> JNull)
      | _ \<Rightarrow> JNull)"

definition spec_primary_pass :: "pydict \<Rightarrow> bool" where
  "spec_primary_pass v =
     (case (score v ''faithfulness'', score v ''readability'') of
        (JNum f, JNum r) \<Rightarrow> 7 \<le> f \<and> 7 \<le> r
      | _ \<Rightarrow> False)"

text \<open>
  The two fields of a verdict that the revision pairing is about: whether the
  orchestrator's test passes it, and its \<^verbatim>\<open>revised_description\<close> (null when missing).
\<close>

definition revision_pairing :: "pydict \<Rightarrow> bool \<times> json" where
  "revision_pairing v = (primary_pass v, dict_get v ''revised_description'' JNull)"

text \<open>Final scores that \<^verbatim>\<open>print_summary\<close> can print: none yet, or a dict.\<close>

definition scores_printable :: "run_results \<Rightarrow> bool" where
  "scores_printable r =
     (case final_scores r of None \<Rightarrow> True | Some (JObj s) \<Rightarrow> True | _ \<Rightarrow> False)"

section \<open>Example runs\<close>

text \<open>
  A well-formed reply of the critic's model, with the given faithfulness and readability
  scores, \<^verbatim>\<open>primary_pass\<close> field and \<^verbatim>\<open>revised_description\<close> field; an answer of the
  image service that carries image number \<open>n\<close>; and a world with an API key whose image
  service and critic answer as given.
\<close>

definition verdict :: "int \<Rightarrow> int \<Rightarrow> json \<Rightarrow> json \<Rightarrow> json" where
  "verdict f r pp revised =
     JObj [(''scores'', JObj [(''faithfulness'', JNum f), (''readability'', JNum r),
                             (''conciseness'', JNum 8), (''aesthetics'', JNum 8)]),
           (''primary_pass'', pp), (''overall_pass'', pp),
           (''critic_suggestions'', JArr [JStr ''Label every arrow'']),
           (''revised_description'', revised)]"

definition image_reply :: "nat \<Rightarrow> client_result" where
  "image_reply n = Response [[Part None, Part (Some (''image/png'', Pixels n))]]"

definition example_world :: "(nat \<Rightarrow> nat \<Rightarrow> client_result) \<Rightarrow> (nat \<Rightarrow> reply) \<Rightarrow> world" where
  "example_world img crit =
     \<lparr>api_key_env = Some ''key'', image_service = img, critic_service = crit,
      retriever_service =
        Returned [''category'' \<mapsto> JStr ''Generative & Learning'',
                  ''visual_intent'' \<mapsto> JStr ''Pipeline/Flow'',
                  ''selected_references'' \<mapsto> JArr []],
      planner_service =
        Returned [''description'' \<mapsto> JStr ''A'', ''caption'' \<mapsto> JStr ''Figure 1''],
      stylist_service =
        Returned [''styled_description'' \<mapsto> JStr ''A'', ''caption'' \<mapsto> JStr ''Figure 1''],
      text_files = Map.empty\<rparr>"

definition stylist0 :: pydict where
  "stylist0 = [''styled_description'' \<mapsto> JStr ''A'', ''caption'' \<mapsto> JStr ''Figure 1'']"

definition results0 :: run_results where
  "results0 =
     \<lparr>mode = ''diagram'', iterations = [], category = Some (JStr ''Generative & Learning''),
      visual_intent = Some (JStr ''Pipeline/Flow''), error = None, accepted = None,
      final_scores = None, max_refinements_reached = None, output_path = None\<rparr>"

definition state0 :: loop_state where
  "state0 =
     \<lparr>current_description = JStr ''A'', stylist_output = stylist0, results = results0,
      disk = Map.empty, trace = []\<rparr>"


definition lenient_world :: world where
  "lenient_world =
     example_world (\<lambda>i a. image_reply i) (\<lambda>i. Parsed (verdict 3 3 (JBool True) JNull))"

definition never_satisfied_world :: world where
  "never_satisfied_world =
     example_world (\<lambda>i a. image_reply i) (\<lambda>i. Parsed (verdict 5 6 (JBool False) (JStr ''B'')))"

definition render_down_world :: world where
  "render_down_world =
     example_world (\<lambda>i a. ClientError (PyExc ''ServerError'' ''503 unavailable'' None))
       (\<lambda>i. Parsed (verdict 9 9 (JBool True) JNull))"

definition abstaining_world :: world where
  "abstaining_world =
     example_world (\<lambda>i a. image_reply i) (\<lambda>i. Parsed (verdict 5 6 (JBool False) JNull))"

definition overeager_world :: world where
  "overeager_world =
     example_world (\<lambda>i a. image_reply i) (\<lambda>i. Parsed (verdict 9 8 (JBool True) (JStr ''B'')))"

definition second_try_world :: world where
  "second_try_world =
     example_world (\<lambda>i a. image_reply i)
       (\<lambda>i. if i = 1 then Parsed (verdict 5 6 (JBool False) (JStr ''B''))
            else Parsed (verdict 9 8 (JBool True) JNull))"

definition late_failure_world :: world where
  "late_failure_world =
     example_world
       (\<lambda>i a. if i = 1 then image_reply 1
              else ClientError (PyExc ''ServerError'' ''503 unavailable'' None))
       (\<lambda>i. Parsed (verdict 5 6 (JBool False) (JStr ''B'')))"

section \<open>Facts about the model\<close>


lemma iterations_range: "[1..<MAX_REFINEMENTS + 1] = [1, 2, 3]"
  by (simp add: MAX_REFINEMENTS_def upt_rec)

lemma upt_0_3: "[0..<3] = [0, 1, 2]"
  by (simp add: upt_rec)

lemma upt_1_4: "[1..<4] = [1, 2, 3]" "[Suc 0..<4] = [1, 2, 3]"
  by (simp_all add: upt_rec)

lemma renders_append [simp]: "renders (xs @ ys) = renders xs @ renders ys"
  by (induction xs rule: renders.induct) simp_all

lemma critics_append [simp]: "critics (xs @ ys) = critics xs @ critics ys"
  by (induction xs rule: critics.induct) simp_all

text \<open>The definitions that evaluating a concrete run unfolds.\<close>

lemmas run_defs =
  refinement_def loop_body_def render_evaluate_def acceptance_def accept_def primary_pass_def
  generate_image_def run_critic_def get_api_key_def try_attempt_def build_prompt_def
  determine_aspect_ratio_def dict_get_def png_path_def endswith_def lower_def lower_char_def
  startswith_def exhausted_error_def no_image_error_def str_nat.simps digit_char_def
  MAX_RETRIES_def RETRY_BASE_DELAY_def MAX_REFINEMENTS_def upt_0_3 upt_1_4 Let_def
  example_world_def verdict_def image_reply_def stylist0_def results0_def state0_def
  returned_def

subsection \<open>The calls an iteration makes\<close>

lemma retry_loop_events:
  "retry_loop client prompt as path fs = (r, fs', evs) \<Longrightarrow> renders evs = [] \<and> critics evs = []"
proof (induction as arbitrary: r fs' evs)
  case Nil
  then show ?case by simp
next
  case (Cons a as)
  then show ?case
    by (auto split: sum.splits prod.splits if_splits)
qed

lemma generate_image_events:
  "generate_image env client fs prompt out ar = (r, fs', evs) \<Longrightarrow>
   renders evs = [] \<and> critics evs = []"
  by (auto simp: generate_image_def split: outcome.splits dest: retry_loop_events)

lemma acceptance_trace:
  "acceptance i v st = (f, st') \<Longrightarrow>
   \<exists>evs. trace st' = trace st @ evs \<and> renders evs = [] \<and> critics evs = []"
  by (auto simp: acceptance_def Let_def split: if_splits)

lemma render_evaluate_Verdict:
  "render_evaluate w m out ar i st = Verdict v st1 \<Longrightarrow>
   \<exists>evs. trace st1 = trace st @ evs \<and> renders evs = [i] \<and> critics evs = [i]"
  by (auto simp: render_evaluate_def Let_def
      split: sum.splits prod.splits outcome.splits if_splits dest: generate_image_events)

lemma render_evaluate_Ended:
  "render_evaluate w m out ar i st = Ended f st1 \<Longrightarrow>
   f \<noteq> Next \<and> (\<exists>evs. trace st1 = trace st @ evs \<and>
      (renders evs = [] \<and> critics evs = [] \<or> renders evs = [i] \<and> critics evs = [] \<or>
       renders evs = [i] \<and> critics evs = [i]))"
  by (auto simp: render_evaluate_def Let_def
      split: sum.splits prod.splits outcome.splits if_splits dest: generate_image_events)

text \<open>
  One iteration calls the renderer at most once and the critic at most once, the critic
  only after the renderer; and the loop goes on only after both were called.
\<close>

lemma loop_body_trace:
  assumes "loop_body w m out ar i st = (f, st')"
  shows "\<exists>evs. trace st' = trace st @ evs \<and>
      (renders evs = [i] \<and> critics evs = [i] \<or>
       f \<noteq> Next \<and> renders evs = [i] \<and> critics evs = [] \<or>
       f \<noteq> Next \<and> renders evs = [] \<and> critics evs = [])"
proof (cases "render_evaluate w m out ar i st")
  case (Verdict v st1)
  with assms have a: "acceptance i v st1 = (f, st')"
    by (simp add: loop_body_def)
  from render_evaluate_Verdict [OF Verdict] obtain evs1
    where e1: "trace st1 = trace st @ evs1" "renders evs1 = [i]" "critics evs1 = [i]"
    by blast
  from acceptance_trace [OF a] obtain evs2
    where e2: "trace st' = trace st1 @ evs2" "renders evs2 = []" "critics evs2 = []"
    by blast
  from e1 e2 have "trace st' = trace st @ (evs1 @ evs2)"
    and "renders (evs1 @ evs2) = [i]" and "critics (evs1 @ evs2) = [i]"
    by simp_all
  then show ?thesis by blast
next
  case (Ended g st1)
  with assms have "g = f" and "st1 = st'"
    by (simp_all add: loop_body_def)
  with render_evaluate_Ended [OF Ended] show ?thesis by blast
qed

text \<open>
  The loop over a list of iterations calls the renderer for a prefix of the list, in
  order, and the critic for the same prefix or for all of it but the last.
\<close>

lemma for_loop_trace:
  "for_loop w m out ar is st = (f, st') \<Longrightarrow>
   \<exists>evs k. k \<le> length is \<and> trace st' = trace st @ evs \<and> renders evs = take k is \<and>
      (critics evs = take k is \<or> critics evs = take (k - 1) is)"
proof (induction "is" arbitrary: st)
  case Nil
  then show ?case by simp
next
  case (Cons i rest)
  obtain g st1 where body: "loop_body w m out ar i st = (g, st1)"
    by (cases "loop_body w m out ar i st")
  from loop_body_trace [OF body] obtain evs1 where e1: "trace st1 = trace st @ evs1"
    and c1: "renders evs1 = [i] \<and> critics evs1 = [i] \<or>
       g \<noteq> Next \<and> renders evs1 = [i] \<and> critics evs1 = [] \<or>
       g \<noteq> Next \<and> renders evs1 = [] \<and> critics evs1 = []"
    by blast
  show ?case
  proof (cases "g = Next")
    case True
    with body Cons.prems have "for_loop w m out ar rest st1 = (f, st')"
      by simp
    from Cons.IH [OF this] obtain evs2 k where k: "k \<le> length rest"
      and e2: "trace st' = trace st1 @ evs2" and r2: "renders evs2 = take k rest"
      and c2: "critics evs2 = take k rest \<or> critics evs2 = take (k - 1) rest"
      by blast
    from True c1 have r1: "renders evs1 = [i]" "critics evs1 = [i]"
      by auto
    have "Suc k \<le> length (i # rest)"
      using k by simp
    moreover have "trace st' = trace st @ (evs1 @ evs2)"
      using e1 e2 by simp
    moreover have "renders (evs1 @ evs2) = take (Suc k) (i # rest)"
      using r1 r2 by simp
    moreover have "critics (evs1 @ evs2) = take (Suc k) (i # rest) \<or>
        critics (evs1 @ evs2) = take (Suc k - 1) (i # rest)"
    proof (cases k)
      case 0
      with c2 r1 show ?thesis by simp
    next
      case (Suc j)
      with c2 r1 show ?thesis by auto
    qed
    ultimately show ?thesis by blast
  next
    case False
    with body Cons.prems have eq: "st' = st1" "f = g"
      by (cases g; simp)+
    from c1 show ?thesis
    proof (elim disjE conjE)
      assume "renders evs1 = [i]" "critics evs1 = [i]"
      then have "Suc 0 \<le> length (i # rest) \<and> trace st' = trace st @ evs1 \<and>
          renders evs1 = take (Suc 0) (i # rest) \<and>
          (critics evs1 = take (Suc 0) (i # rest) \<or>
           critics evs1 = take (Suc 0 - 1) (i # rest))"
        using e1 eq by simp
      then show ?thesis by blast
    next
      assume "renders evs1 = [i]" "critics evs1 = []"
      then have "Suc 0 \<le> length (i # rest) \<and> trace st' = trace st @ evs1 \<and>
          renders evs1 = take (Suc 0) (i # rest) \<and>
          (critics evs1 = take (Suc 0) (i # rest) \<or>
           critics evs1 = take (Suc 0 - 1) (i # rest))"
        using e1 eq by simp
      then show ?thesis by blast
    next
      assume "renders evs1 = []" "critics evs1 = []"
      then have "0 \<le> length (i # rest) \<and> trace st' = trace st @ evs1 \<and>
          renders evs1 = take 0 (i # rest) \<and>
          (critics evs1 = take 0 (i # rest) \<or> critics evs1 = take (0 - 1) (i # rest))"
        using e1 eq by simp
      then show ?thesis by blast
    qed
  qed
qed

lemma distinct_count_le_1: "distinct xs \<Longrightarrow> count_list xs i \<le> 1"
  by (induction xs) (auto simp: count_list_0_iff)

lemma count_take_mono: "count_list (take (k - 1) xs) i \<le> count_list (take k xs) i"
proof (induction xs arbitrary: k)
  case Nil
  then show ?case by simp
next
  case (Cons x xs)
  show ?case
  proof (cases k)
    case 0
    then show ?thesis by simp
  next
    case (Suc j)
    show ?thesis
    proof (cases j)
      case 0
      with Suc show ?thesis by simp
    next
      case (Suc l)
      with Cons.IH [of j] \<open>k = Suc j\<close> show ?thesis by simp
    qed
  qed
qed

lemma for_loop_counts:
  assumes "for_loop w m out ar [1, 2, 3] st = (f, st')"
  shows "\<exists>evs. trace st' = trace st @ evs \<and> (\<forall>i. count_list (renders evs) i \<le> 1) \<and>
     length (renders evs) \<le> 3 \<and>
     (\<forall>i. count_list (critics evs) i \<le> count_list (renders evs) i)"
proof -
  from for_loop_trace [OF assms] obtain evs k where k0: "k \<le> length [1, 2, 3 :: nat]"
    and t: "trace st' = trace st @ evs" and r: "renders evs = take k [1, 2, 3]"
    and c: "critics evs = take k [1, 2, 3] \<or> critics evs = take (k - 1) [1, 2, 3]"
    by blast
  from k0 have k: "k \<le> 3"
    by simp
  have "distinct (renders evs)"
    using r by simp
  then have "\<forall>i. count_list (renders evs) i \<le> 1"
    by (blast intro: distinct_count_le_1)
  moreover have "length (renders evs) \<le> 3"
    using k r by simp
  moreover have "\<forall>i. count_list (critics evs) i \<le> count_list (renders evs) i"
    using c r count_take_mono [of k "[1, 2, 3 :: nat]"] by auto
  ultimately show ?thesis
    using t by blast
qed

subsection \<open>Where the loop ends and what it leaves\<close>

text \<open>
  With the stylist output and the aspect ratio in hand, what \<^verbatim>\<open>run_diagram_pipeline\<close>
  returns from line 117 on is read off the end of the loop.
\<close>

lemma refinement_loop:
  assumes "so ''styled_description'' = Some d"
    and "determine_aspect_ratio
           (case visual_intent res of None \<Rightarrow> JStr [] | Some v \<Rightarrow> v) = Inr ar"
    and "for_loop w m out ar [1, 2, 3]
           \<lparr>current_description = d, stylist_output = so, results = res, disk = fs,
            trace = evs0\<rparr> = (f, st')"
  shows "refinement w m out so res fs evs0 =
           (case f of
              Abort e \<Rightarrow> Raised e
            | Exit c \<Rightarrow> Exited c
            | _ \<Rightarrow> Returned ((results st')\<lparr>output_path := Some out\<rparr>),
            disk st', trace st')"
  using assms unfolding refinement_def iterations_range
  by (cases f) (simp_all del: for_loop.simps)

lemma render_evaluate_Verdict_appended:
  "render_evaluate w m out ar i st = Verdict v st1 \<Longrightarrow>
   iterations (results st1) = iterations (results st) @ [v] \<and>
   error (results st1) = error (results st)"
  by (auto simp: render_evaluate_def Let_def
      split: sum.splits prod.splits outcome.splits if_splits)

text \<open>The loop goes on to a next iteration exactly on a usable revision.\<close>

lemma next_iteration_iff:
  assumes "render_evaluate w m out ar i st = Verdict v st1"
  shows "fst (loop_body w m out ar i st) = Next \<longleftrightarrow>
         \<not> primary_pass v \<and> i < MAX_REFINEMENTS \<and>
         truthy (dict_get v ''revised_description'' JNull)"
  using assms by (auto simp: loop_body_def acceptance_def Let_def)

subsection \<open>What the renderer and the critic can come to\<close>

lemma retry_loop_raises:
  "retry_loop client prompt as path fs = (Raised e, fs', evs) \<Longrightarrow>
   exc_class e = ''RuntimeError''"
proof (induction as arbitrary: fs' evs)
  case Nil
  then show ?case by simp
next
  case (Cons a as)
  then show ?case
    by (auto simp: exhausted_error_def split: sum.splits prod.splits if_splits)
qed

lemma retry_loop_never_exits:
  "retry_loop client prompt as path fs \<noteq> (Exited c, fs', evs)"
proof (induction as arbitrary: fs' evs)
  case Nil
  then show ?case by simp
next
  case (Cons a as)
  then show ?case
    by (auto split: sum.splits prod.splits if_splits)
qed

lemma generate_image_raises:
  "generate_image env client fs prompt out ar = (Raised e, fs', evs) \<Longrightarrow>
   exc_class e = ''RuntimeError''"
  by (auto simp: generate_image_def get_api_key_def split: option.splits if_splits
      dest: retry_loop_raises)

lemma generate_image_exits:
  "generate_image env client fs prompt out ar = (Exited c, fs', evs) \<Longrightarrow> c = 1"
  by (auto simp: generate_image_def get_api_key_def retry_loop_never_exits
      split: option.splits if_splits)

text \<open>
  \<^verbatim>\<open>run_critic\<close> returns a parsed dict exactly when the key and the image are there, the
  scores are a dict and the suggestions print; then it returns the dict as parsed, with
  the iteration added. Neither \<^verbatim>\<open>primary_pass\<close> nor \<^verbatim>\<open>revised_description\<close> is looked at.
\<close>

lemma run_critic_returns_iff:
  "(\<exists>v. run_critic env (Parsed (JObj kvs)) fs path m so i = Returned v) \<longleftrightarrow>
   (\<exists>k. get_api_key env = Returned k) \<and> fs path \<noteq> None \<and>
   (\<exists>s. dict_get (map_of (rev kvs)) ''scores'' (JObj []) = JObj s) \<and>
   suggestions_print (dict_get (map_of (rev kvs)) ''critic_suggestions'' (JArr []))"
  by (auto simp: run_critic_def get_api_key_def dict_get_def Let_def
      split: option.splits if_splits json.splits)

lemma run_critic_returns_parsed:
  "run_critic env (Parsed (JObj kvs)) fs path m so i = Returned v \<Longrightarrow>
   v = (map_of (rev kvs))(''iteration'' \<mapsto> JNum (int i))"
  by (auto simp: run_critic_def get_api_key_def Let_def
      split: option.splits if_splits json.splits outcome.splits)

lemma run_critic_scores:
  "run_critic env vlm fs path m so i = Returned v \<Longrightarrow>
   \<exists>s. dict_get v ''scores'' (JObj []) = JObj s"
  by (auto simp: run_critic_def get_api_key_def Let_def
      split: option.splits if_splits reply.splits json.splits)

lemma run_critic_exits:
  "run_critic env vlm fs path m so i = Exited c \<Longrightarrow> c = 1"
  by (auto simp: run_critic_def get_api_key_def Let_def
      split: option.splits if_splits reply.splits json.splits)

subsection \<open>The final scores stay printable, and every exit is an exit with code 1\<close>

lemma render_evaluate_Verdict_scores:
  "render_evaluate w m out ar i st = Verdict v st1 \<Longrightarrow>
   (\<exists>s. dict_get v ''scores'' (JObj []) = JObj s) \<and>
   final_scores (results st1) = final_scores (results st)"
  by (auto simp: render_evaluate_def Let_def
      split: sum.splits prod.splits outcome.splits if_splits dest: run_critic_scores)

lemma render_evaluate_Ended_scores:
  "render_evaluate w m out ar i st = Ended f st1 \<Longrightarrow>
   final_scores (results st1) = final_scores (results st) \<and> (\<forall>c. f = Exit c \<longrightarrow> c = 1)"
  by (auto simp: render_evaluate_def Let_def
      split: sum.splits prod.splits outcome.splits if_splits
      dest: generate_image_exits run_critic_exits)

lemma acceptance_scores:
  "acceptance i v st1 = (f, st') \<Longrightarrow> dict_get v ''scores'' (JObj []) = JObj s \<Longrightarrow>
   scores_printable (results st1) \<Longrightarrow>
   scores_printable (results st') \<and> (\<forall>c. f \<noteq> Exit c)"
  by (auto simp: acceptance_def accept_def scores_printable_def Let_def split: if_splits)

lemma loop_body_scores:
  assumes "loop_body w m out ar i st = (f, st')" and "scores_printable (results st)"
  shows "scores_printable (results st') \<and> (\<forall>c. f = Exit c \<longrightarrow> c = 1)"
proof (cases "render_evaluate w m out ar i st")
  case (Verdict v st1)
  with assms(1) have a: "acceptance i v st1 = (f, st')"
    by (simp add: loop_body_def)
  from render_evaluate_Verdict_scores [OF Verdict] obtain s
    where s: "dict_get v ''scores'' (JObj []) = JObj s"
      and "final_scores (results st1) = final_scores (results st)"
    by blast
  with assms(2) have "scores_printable (results st1)"
    by (simp add: scores_printable_def)
  from acceptance_scores [OF a s this] show ?thesis
    by simp
next
  case (Ended g st1)
  with assms(1) have "g = f" and "st1 = st'"
    by (simp_all add: loop_body_def)
  with render_evaluate_Ended_scores [OF Ended] assms(2) show ?thesis
    by (simp add: scores_printable_def)
qed

lemma for_loop_scores:
  "for_loop w m out ar is st = (f, st') \<Longrightarrow> scores_printable (results st) \<Longrightarrow>
   scores_printable (results st') \<and> (\<forall>c. f = Exit c \<longrightarrow> c = 1)"
proof (induction "is" arbitrary: st)
  case Nil
  then show ?case by auto
next
  case (Cons i rest)
  obtain g st1 where body: "loop_body w m out ar i st = (g, st1)"
    by (cases "loop_body w m out ar i st")
  from loop_body_scores [OF body Cons.prems(2)]
  have p1: "scores_printable (results st1)" and x1: "\<forall>c. g = Exit c \<longrightarrow> c = 1"
    by simp_all
  show ?case
  proof (cases "g = Next")
    case True
    with body Cons.prems(1) have "for_loop w m out ar rest st1 = (f, st')"
      by simp
    from Cons.IH [OF this p1] show ?thesis .
  next
    case False
    with body Cons.prems(1) have "st' = st1" and "f = g"
      by (cases g; simp)+
    with p1 x1 show ?thesis
      by simp
  qed
qed

text \<open>
  An exception that \<^verbatim>\<open>generate_image\<close> raises is the \<^verbatim>\<open>RuntimeError\<close> of its last attempt;
  the loop catches it, records its message and breaks.
\<close>

lemma render_failure_breaks:
  assumes "build_prompt (current_description st) ar = Inr p"
    and "generate_image (api_key_env w) (image_service w i) (disk st) p out ar
           = (Raised e, fs1, evs1)"
  shows "fst (for_loop w m out ar (i # rest) st) = Break \<and>
         error (results (snd (for_loop w m out ar (i # rest) st))) = Some (exc_msg e) \<and>
         accepted (results (snd (for_loop w m out ar (i # rest) st))) = accepted (results st)"
  using assms generate_image_raises [OF assms(2)]
  by (simp add: loop_body_def render_evaluate_def Let_def)

section \<open>The claims\<close>

text \<open>
  Claims C2 to C7, C9 and C10 are about lines 117 to 189 of \<^verbatim>\<open>orchestrate.py\<close>, the
  rendering and critic loop. They are stated on \<open>refinement\<close>, \<open>for_loop\<close> and
  \<open>loop_body\<close>, for every world and every state in which these lines can start. Claim C1
  is about the call of line 98, before them.
\<close>

subsection \<open>C1: the retriever call\<close>

text \<open>
  C1. In diagram mode every call of \<^verbatim>\<open>run_diagram_pipeline\<close> passes the keyword argument
  \<^verbatim>\<open>references_dir\<close> to \<^verbatim>\<open>run_retriever\<close>, whose signature declares only \<^verbatim>\<open>methodology\<close> and
  \<^verbatim>\<open>mode\<close>: for every world, every input and every value of \<^verbatim>\<open>references_dir\<close>, the
  pipeline raises \<^verbatim>\<open>TypeError\<close> with no file written, no service called and no
  intermediate output saved.
\<close>

theorem retriever_call_raises_TypeError:
  "run_diagram_pipeline w fs methodology caption out references_dir =
     (Raised (PyExc ''TypeError''
        (''run_retriever() got an unexpected keyword argument '' @ quoted ''references_dir'')
        None), fs, [])"
  by (simp add: run_diagram_pipeline_def run_retriever_def bind_arguments_def
      run_retriever_params_def)

text \<open>
  The same call without the keyword, and the call that \<^verbatim>\<open>retriever.py\<close>'s own command
  line makes, bind and run the body; and so every diagram-mode run of \<^verbatim>\<open>main\<close> ends with
  exit code 1, whether on a missing methodology or on this \<^verbatim>\<open>TypeError\<close>.
\<close>

lemma retriever_call_without_references_dir_binds:
  "run_retriever w [JStr methodology] [(''mode'', JStr ''diagram'')] = retriever_service w"
  by (simp add: run_retriever_def bind_arguments_def run_retriever_params_def)

lemma retriever_cli_call_binds:
  "run_retriever w [JStr methodology, JStr ''diagram''] [] = retriever_service w"
  by (simp add: run_retriever_def bind_arguments_def run_retriever_params_def)

lemma main_exits_1: "exit_code (fst (main w fs args)) = 1"
  by (simp add: main_def finish_def run_diagram_pipeline_def run_retriever_def
      bind_arguments_def run_retriever_params_def split: option.splits)

subsection \<open>C2: where primary pass comes from\<close>

text \<open>
  The claim says that primary pass holds exactly when faithfulness and readability are
  both at least 7, and that the orchestrator computes it. Here the critic's model reports
  faithfulness 3 and readability 3 together with \<^verbatim>\<open>"primary_pass": true\<close>: the rule of
  the specification fails on the verdict, the orchestrator's test holds on it, and the
  run ends accepted after one iteration, with these scores as its final scores.
\<close>

theorem primary_pass_is_critics_field_counterexample:
  "map_option accepted
     (returned (fst (refinement lenient_world ''m'' ''d.png'' stylist0 results0 Map.empty [])))
     = Some (Some True) \<and>
   map_option (map spec_primary_pass \<circ> iterations)
     (returned (fst (refinement lenient_world ''m'' ''d.png'' stylist0 results0 Map.empty [])))
     = Some [False] \<and>
   map_option (map primary_pass \<circ> iterations)
     (returned (fst (refinement lenient_world ''m'' ''d.png'' stylist0 results0 Map.empty [])))
     = Some [True] \<and>
   map_option final_scores
     (returned (fst (refinement lenient_world ''m'' ''d.png'' stylist0 results0 Map.empty [])))
     = Some (Some (JObj [(''faithfulness'', JNum 3), (''readability'', JNum 3),
                         (''conciseness'', JNum 8), (''aesthetics'', JNum 8)]))"
  by (simp add: run_defs lenient_world_def score_def spec_primary_pass_def)

text \<open>
  C2, amended. The orchestrator does not compute primary pass: its test is the
  truthiness of the \<^verbatim>\<open>primary_pass\<close> field of the critic's own response, false when the
  field is missing. A verdict whose field is truthy ends the loop at once, accepted, with
  the verdict's scores recorded as final scores; and putting any other scores into a
  verdict changes neither the test nor what the loop does next.
\<close>

theorem acceptance_reads_primary_pass_field:
  "(render_evaluate w m out ar i st = Verdict v st1 \<and> primary_pass v \<longrightarrow>
      for_loop w m out ar (i # rest) st =
        (Break, st1\<lparr>results := (results st1)
                  \<lparr>accepted := Some True,
                   final_scores := Some (dict_get v ''scores'' (JObj []))\<rparr>\<rparr>)) \<and>
   \<not> primary_pass (v(''primary_pass'' := None)) \<and>
   primary_pass (v(''scores'' \<mapsto> s)) = primary_pass v \<and>
   fst (acceptance i (v(''scores'' \<mapsto> s)) st1) = fst (acceptance i v st1)"
  by (simp add: loop_body_def acceptance_def accept_def primary_pass_def dict_get_def Let_def)

text \<open>
  The amended claim at the verdict with scores 3 and 3 and a true \<^verbatim>\<open>primary_pass\<close> field.
\<close>

theorem acceptance_reads_primary_pass_field_witness:
  "(case render_evaluate lenient_world ''m'' ''d.png'' ''16:9'' 1 state0 of
      Verdict v st1 \<Rightarrow> primary_pass v \<and> \<not> spec_primary_pass v
    | Ended f st' \<Rightarrow> False) \<and>
   fst (for_loop lenient_world ''m'' ''d.png'' ''16:9'' [1, 2, 3] state0) = Break \<and>
   accepted (results (snd (for_loop lenient_world ''m'' ''d.png'' ''16:9'' [1, 2, 3] state0)))
     = Some True"
proof -
  have h: "case render_evaluate lenient_world ''m'' ''d.png'' ''16:9'' 1 state0 of
      Verdict v st1 \<Rightarrow> primary_pass v \<and> \<not> spec_primary_pass v
    | Ended f st' \<Rightarrow> False"
    by (simp add: run_defs lenient_world_def score_def spec_primary_pass_def)
  then obtain v st1
    where ev: "render_evaluate lenient_world ''m'' ''d.png'' ''16:9'' 1 state0 = Verdict v st1"
      and pp: "primary_pass v"
    by (cases "render_evaluate lenient_world ''m'' ''d.png'' ''16:9'' 1 state0") auto
  from acceptance_reads_primary_pass_field [of lenient_world "''m''" "''d.png''" "''16:9''" 1
      state0 v st1 "[2, 3]"] ev pp
  have "for_loop lenient_world ''m'' ''d.png'' ''16:9'' [1, 2, 3] state0 =
      (Break, st1\<lparr>results := (results st1)
                  \<lparr>accepted := Some True,
                   final_scores := Some (dict_get v ''scores'' (JObj []))\<rparr>\<rparr>)"
    by blast
  with h show ?thesis
    by simp
qed

subsection \<open>C3: at most three cycles\<close>

text \<open>
  C3. In every run of the refinement loop, from any stylist output, results and files,
  the events the loop adds call the image renderer at most once for each iteration
  number and at most \<open>MAX_REFINEMENTS = 3\<close> times in all, and call the critic for an
  iteration at most as often as the renderer: at most three render and evaluate cycles.
\<close>

theorem render_calls_bounded:
  "\<exists>evs. snd (snd (refinement w m out so res fs evs0)) = evs0 @ evs \<and>
     (\<forall>i. count_list (renders evs) i \<le> 1) \<and>
     length (renders evs) \<le> MAX_REFINEMENTS \<and>
     (\<forall>i. count_list (critics evs) i \<le> count_list (renders evs) i)"
proof (cases "so ''styled_description''")
  case None
  then have "snd (snd (refinement w m out so res fs evs0)) = evs0 @ []"
    by (simp add: refinement_def)
  then show ?thesis
    by (intro exI [of _ "[]"]) (simp add: MAX_REFINEMENTS_def)
next
  case (Some d)
  show ?thesis
  proof (cases "determine_aspect_ratio
      (case visual_intent res of None \<Rightarrow> JStr [] | Some v \<Rightarrow> v)")
    case (Inl e)
    with Some have "snd (snd (refinement w m out so res fs evs0)) = evs0 @ []"
      by (simp add: refinement_def)
    then show ?thesis
      by (intro exI [of _ "[]"]) (simp add: MAX_REFINEMENTS_def)
  next
    case (Inr ar)
    define st where "st = \<lparr>current_description = d, stylist_output = so, results = res,
      disk = fs, trace = evs0\<rparr>"
    obtain f st' where run: "for_loop w m out ar [1, 2, 3] st = (f, st')"
      by (cases "for_loop w m out ar [1, 2, 3] st")
    from refinement_loop [OF Some Inr run [unfolded st_def]]
    have "snd (snd (refinement w m out so res fs evs0)) = trace st'"
      by simp
    moreover from for_loop_counts [OF run] have "\<exists>evs. trace st' = evs0 @ evs \<and>
       (\<forall>i. count_list (renders evs) i \<le> 1) \<and> length (renders evs) \<le> 3 \<and>
       (\<forall>i. count_list (critics evs) i \<le> count_list (renders evs) i)"
      by (simp add: st_def)
    ultimately show ?thesis
      by (simp add: MAX_REFINEMENTS_def)
  qed
qed

subsection \<open>C4: the third iteration fails\<close>

text \<open>
  The claim says that a run whose third verdict fails is flagged as unapproved, not
  recorded as accepted. Here the critic's model fails all three images, each time with a
  revision: the renderer runs in iterations 1, 2 and 3, no verdict passes, and the
  results have \<^verbatim>\<open>accepted\<close> set to true, beside \<^verbatim>\<open>max_refinements_reached\<close>.
\<close>

theorem exhausted_run_counterexample:
  "map_option accepted
     (returned (fst (refinement never_satisfied_world ''m'' ''d.png'' stylist0 results0
        Map.empty []))) = Some (Some True) \<and>
   map_option max_refinements_reached
     (returned (fst (refinement never_satisfied_world ''m'' ''d.png'' stylist0 results0
        Map.empty []))) = Some (Some True) \<and>
   map_option (map primary_pass \<circ> iterations)
     (returned (fst (refinement never_satisfied_world ''m'' ''d.png'' stylist0 results0
        Map.empty []))) = Some [False, False, False] \<and>
   renders (snd (snd (refinement never_satisfied_world ''m'' ''d.png'' stylist0 results0
      Map.empty []))) = [1, 2, 3]"
  by (simp add: run_defs never_satisfied_world_def)

text \<open>
  C4, amended. For every run in which the verdict of iteration 3, the bound
  \<open>MAX_REFINEMENTS\<close>, does not pass, the loop ends there, with no further call, files and
  events as the evaluation left them; the artifact just evaluated is recorded with
  \<^verbatim>\<open>accepted\<close> true, the verdict's scores as final scores, and the flag
  \<^verbatim>\<open>max_refinements_reached\<close> true, which alone tells the run from an approved one.
\<close>

theorem exhausted_run_recorded_accepted:
  assumes "render_evaluate w m out ar MAX_REFINEMENTS st = Verdict v st1"
    and "\<not> primary_pass v"
  shows "for_loop w m out ar (MAX_REFINEMENTS # rest) st =
           (Break, st1\<lparr>results := (results st1)
                     \<lparr>accepted := Some True,
                      final_scores := Some (dict_get v ''scores'' (JObj [])),
                      max_refinements_reached := Some True\<rparr>\<rparr>)"
  using assms by (simp add: loop_body_def acceptance_def accept_def)

text \<open>The amended claim at a third iteration whose verdict fails.\<close>

theorem exhausted_run_recorded_accepted_witness:
  "(case render_evaluate never_satisfied_world ''m'' ''d.png'' ''16:9'' MAX_REFINEMENTS state0 of
      Verdict v st1 \<Rightarrow> \<not> primary_pass v
    | Ended f st' \<Rightarrow> False) \<and>
   fst (for_loop never_satisfied_world ''m'' ''d.png'' ''16:9'' [MAX_REFINEMENTS] state0)
     = Break \<and>
   accepted (results (snd (for_loop never_satisfied_world ''m'' ''d.png'' ''16:9''
      [MAX_REFINEMENTS] state0))) = Some True \<and>
   max_refinements_reached (results (snd (for_loop never_satisfied_world ''m'' ''d.png'' ''16:9''
      [MAX_REFINEMENTS] state0))) = Some True"
proof -
  have h: "case render_evaluate never_satisfied_world ''m'' ''d.png'' ''16:9'' MAX_REFINEMENTS
        state0 of
      Verdict v st1 \<Rightarrow> \<not> primary_pass v
    | Ended f st' \<Rightarrow> False"
    by (simp add: run_defs never_satisfied_world_def)
  then obtain v st1
    where ev: "render_evaluate never_satisfied_world ''m'' ''d.png'' ''16:9'' MAX_REFINEMENTS
        state0 = Verdict v st1"
      and pp: "\<not> primary_pass v"
    by (cases "render_evaluate never_satisfied_world ''m'' ''d.png'' ''16:9'' MAX_REFINEMENTS
        state0") auto
  from exhausted_run_recorded_accepted [OF ev pp, of "[]"] h show ?thesis
    by simp
qed

subsection \<open>C5: a failing verdict without a revision\<close>

text \<open>
  C5. For every critic verdict that does not pass and whose \<^verbatim>\<open>revised_description\<close> is
  null or missing, in any iteration and from any state, the loop does not raise or exit:
  it ends with \<^verbatim>\<open>break\<close> (after which the results are returned), the current image is
  accepted with the verdict's scores, no error is recorded, and no event follows the
  evaluation, so no further render call is made.
\<close>

theorem missing_revision_accepts_current:
  assumes "render_evaluate w m out ar i st = Verdict v st1"
    and "\<not> primary_pass v"
    and "dict_get v ''revised_description'' JNull = JNull"
  shows "\<exists>st'. for_loop w m out ar (i # rest) st = (Break, st') \<and>
           accepted (results st') = Some True \<and>
           final_scores (results st') = Some (dict_get v ''scores'' (JObj [])) \<and>
           error (results st') = error (results st1) \<and>
           trace st' = trace st1 \<and> disk st' = disk st1"
  using assms by (simp add: loop_body_def acceptance_def accept_def Let_def)

text \<open>
  C5 at a first verdict that fails with \<^verbatim>\<open>"revised_description": null\<close>: the loop over
  iterations 1, 2, 3 breaks, accepted, having rendered once.
\<close>

theorem missing_revision_accepts_current_witness:
  "(case render_evaluate abstaining_world ''m'' ''d.png'' ''16:9'' 1 state0 of
      Verdict v st1 \<Rightarrow> \<not> primary_pass v \<and> dict_get v ''revised_description'' JNull = JNull
    | Ended f st' \<Rightarrow> False) \<and>
   fst (for_loop abstaining_world ''m'' ''d.png'' ''16:9'' [1, 2, 3] state0) = Break \<and>
   accepted (results (snd (for_loop abstaining_world ''m'' ''d.png'' ''16:9'' [1, 2, 3] state0)))
     = Some True \<and>
   renders (trace (snd (for_loop abstaining_world ''m'' ''d.png'' ''16:9'' [1, 2, 3] state0)))
     = [1]"
proof -
  have h: "case render_evaluate abstaining_world ''m'' ''d.png'' ''16:9'' 1 state0 of
      Verdict v st1 \<Rightarrow> \<not> primary_pass v \<and> dict_get v ''revised_description'' JNull = JNull
    | Ended f st' \<Rightarrow> False"
    by (simp add: run_defs abstaining_world_def)
  then obtain v st1
    where ev: "render_evaluate abstaining_world ''m'' ''d.png'' ''16:9'' 1 state0 = Verdict v st1"
      and pp: "\<not> primary_pass v" and rv: "dict_get v ''revised_description'' JNull = JNull"
    by (cases "render_evaluate abstaining_world ''m'' ''d.png'' ''16:9'' 1 state0") auto
  from missing_revision_accepts_current [OF ev pp rv, of "[2, 3]"] obtain st'
    where run: "for_loop abstaining_world ''m'' ''d.png'' ''16:9'' [1, 2, 3] state0 = (Break, st')"
      and acc: "accepted (results st') = Some True" and tr: "trace st' = trace st1"
    by blast
  from render_evaluate_Verdict [OF ev] have "renders (trace st1) = [1]"
    by (auto simp: state0_def)
  with h run acc tr show ?thesis
    by simp
qed

subsection \<open>C6: a revision replaces the description\<close>

text \<open>
  C6. For every iteration whose verdict carries the revised description \<open>B\<close> and after
  which the loop goes on, whatever the description \<open>A\<close> of that iteration was: the
  description of the next iteration is \<open>B\<close>, the stylist output passed to the next critic
  holds \<open>B\<close>, and the first thing the next iteration does is the render call with the
  prompt \<^verbatim>\<open>quality_prefix + B\<close>, in which nothing of \<open>A\<close> is left.
\<close>

theorem revision_replaces_description:
  assumes "render_evaluate w m out ar i st = Verdict v st1"
    and "dict_get v ''revised_description'' JNull = JStr B"
    and "loop_body w m out ar i st = (Next, st2)"
  shows "current_description st2 = JStr B \<and>
         stylist_output st2 ''styled_description'' = Some (JStr B) \<and>
         for_loop w m out ar (i # j # rest) st = for_loop w m out ar (j # rest) st2 \<and>
         (\<exists>evs. trace (snd (loop_body w m out ar j st2)) =
                  trace st2 @ Render j (quality_prefix @ B) out # evs)"
proof -
  from assms(1,3) have a: "acceptance i v st1 = (Next, st2)"
    by (simp add: loop_body_def)
  with assms(2) have cd: "current_description st2 = JStr B"
    and so: "stylist_output st2 ''styled_description'' = Some (JStr B)"
    by (auto simp: acceptance_def Let_def split: if_splits)
  have loop: "for_loop w m out ar (i # j # rest) st = for_loop w m out ar (j # rest) st2"
    using assms(3) by simp
  have "\<exists>evs. trace (snd (loop_body w m out ar j st2)) =
      trace st2 @ Render j (quality_prefix @ B) out # evs"
    using cd
    by (auto simp: loop_body_def render_evaluate_def build_prompt_def acceptance_def Let_def
        split: prod.splits outcome.splits)
  with cd so loop show ?thesis
    by blast
qed

text \<open>
  C6 at a first iteration with description \<^verbatim>\<open>A\<close> whose verdict fails with the revision
  \<^verbatim>\<open>B\<close>: the second iteration starts with the render call for \<^verbatim>\<open>quality_prefix + B\<close>.
\<close>

theorem revision_replaces_description_witness:
  "(case render_evaluate never_satisfied_world ''m'' ''d.png'' ''16:9'' 1 state0 of
      Verdict v st1 \<Rightarrow> dict_get v ''revised_description'' JNull = JStr ''B''
    | Ended f st' \<Rightarrow> False) \<and>
   fst (loop_body never_satisfied_world ''m'' ''d.png'' ''16:9'' 1 state0) = Next \<and>
   current_description state0 = JStr ''A'' \<and>
   current_description (snd (loop_body never_satisfied_world ''m'' ''d.png'' ''16:9'' 1 state0))
     = JStr ''B'' \<and>
   (\<exists>evs. trace (snd (loop_body never_satisfied_world ''m'' ''d.png'' ''16:9'' 2
                      (snd (loop_body never_satisfied_world ''m'' ''d.png'' ''16:9'' 1 state0))))
          = trace (snd (loop_body never_satisfied_world ''m'' ''d.png'' ''16:9'' 1 state0)) @
            Render 2 (quality_prefix @ ''B'') ''d.png'' # evs)"
proof -
  have h: "case render_evaluate never_satisfied_world ''m'' ''d.png'' ''16:9'' 1 state0 of
      Verdict v st1 \<Rightarrow> dict_get v ''revised_description'' JNull = JStr ''B''
    | Ended f st' \<Rightarrow> False"
    by (simp add: run_defs never_satisfied_world_def)
  then obtain v st1
    where ev: "render_evaluate never_satisfied_world ''m'' ''d.png'' ''16:9'' 1 state0
        = Verdict v st1"
      and rv: "dict_get v ''revised_description'' JNull = JStr ''B''"
    by (cases "render_evaluate never_satisfied_world ''m'' ''d.png'' ''16:9'' 1 state0") auto
  have nx: "fst (loop_body never_satisfied_world ''m'' ''d.png'' ''16:9'' 1 state0) = Next"
    by (simp add: run_defs never_satisfied_world_def)
  then obtain st2
    where body: "loop_body never_satisfied_world ''m'' ''d.png'' ''16:9'' 1 state0 = (Next, st2)"
    by (cases "loop_body never_satisfied_world ''m'' ''d.png'' ''16:9'' 1 state0") auto
  have a: "current_description state0 = JStr ''A''"
    by (simp add: state0_def)
  from revision_replaces_description [OF ev rv body, of 2 "[3]"] h nx a body
  show ?thesis
    by simp
qed

subsection \<open>C7: one image file for all iterations\<close>

text \<open>
  C7 says that no iteration's image is overwritten by a later iteration. Line 128
  computes a name of its own for every iteration after the first
  (\<^verbatim>\<open>iter_output\<close>), and line 133 passes \<^verbatim>\<open>output_path\<close> all the same. In this run the first
  image fails with a revision and the second passes: both render calls write
  \<^verbatim>\<open>d.png\<close>, and when the run returns, with two verdicts in its history, the only image
  file is \<^verbatim>\<open>d.png\<close> and it holds the second image; nothing is stored under the second
  iteration's own name.
\<close>

theorem second_image_overwrites_first:
  "render_paths (snd (snd (refinement second_try_world ''m'' ''d.png'' stylist0 results0
      Map.empty []))) = [(1, ''d.png''), (2, ''d.png'')] \<and>
   fst (snd (refinement second_try_world ''m'' ''d.png'' stylist0 results0 Map.empty []))
     = [''d.png'' \<mapsto> 2] \<and>
   iter_output ''d.png'' 2 = ''d.png.iter2.png'' \<and>
   fst (snd (refinement second_try_world ''m'' ''d.png'' stylist0 results0 Map.empty []))
     (iter_output ''d.png'' 2) = None \<and>
   map_option (length \<circ> iterations)
     (returned (fst (refinement second_try_world ''m'' ''d.png'' stylist0 results0
        Map.empty []))) = Some 2"
  by (simp add: run_defs second_try_world_def iter_output_def)

subsection \<open>C8: retries and backoff of the renderer\<close>



subsection \<open>C9: the exit code\<close>

text \<open>
  The claim names an unrecoverable renderer error among the failures that end the
  process with a non-zero code. Here the image service is down: \<^verbatim>\<open>generate_image\<close> gives
  up after three attempts, the loop catches its \<^verbatim>\<open>RuntimeError\<close> and records the message,
  nothing is accepted, the results are returned, and \<^verbatim>\<open>main\<close> saves and prints them and
  ends with exit code 0.
\<close>

theorem renderer_failure_exits_0_counterexample:
  "exit_code (fst (finish (refinement render_down_world ''m'' ''d.png'' stylist0 results0
      Map.empty []))) = 0 \<and>
   map_option error
     (returned (fst (refinement render_down_world ''m'' ''d.png'' stylist0 results0
        Map.empty [])))
     = Some (Some ''Image generation failed after 3 attempts. Last error: 503 unavailable'') \<and>
   map_option accepted
     (returned (fst (refinement render_down_world ''m'' ''d.png'' stylist0 results0
        Map.empty []))) = Some None"
  by (simp add: run_defs render_down_world_def finish_def print_summary_def)

text \<open>
  C9, amended. For every run of the loop that starts without final scores: the process
  ends with exit code 0 exactly when the loop's part of \<^verbatim>\<open>run_diagram_pipeline\<close> returns
  its results, and with exit code 1 otherwise, that is on \<^verbatim>\<open>sys.exit(1)\<close> or on an
  exception that nothing catches. A failure of the renderer is among the runs that
  return: whenever \<^verbatim>\<open>generate_image\<close> raises in an iteration, the loop breaks with the
  message recorded in \<^verbatim>\<open>results["error"]\<close>.
\<close>

theorem exit_code_after_refinement:
  assumes "final_scores res = None"
  shows "exit_code (fst (finish (refinement w m out so res fs evs))) =
           (case fst (refinement w m out so res fs evs) of
              Returned r \<Rightarrow> 0 | Raised e \<Rightarrow> 1 | Exited c \<Rightarrow> 1) \<and>
         (\<forall>ar i st p e fs1 evs1 rest.
            build_prompt (current_description st) ar = Inr p \<and>
            generate_image (api_key_env w) (image_service w i) (disk st) p out ar
              = (Raised e, fs1, evs1) \<longrightarrow>
            fst (for_loop w m out ar (i # rest) st) = Break \<and>
            error (results (snd (for_loop w m out ar (i # rest) st))) = Some (exc_msg e))"
proof -
  have A: "exit_code (fst (finish (refinement w m out so res fs evs))) =
           (case fst (refinement w m out so res fs evs) of
              Returned r \<Rightarrow> 0 | Raised e \<Rightarrow> 1 | Exited c \<Rightarrow> 1)"
  proof (cases "so ''styled_description''")
    case None
    then show ?thesis
      by (simp add: refinement_def finish_def)
  next
    case (Some d)
    show ?thesis
    proof (cases "determine_aspect_ratio
        (case visual_intent res of None \<Rightarrow> JStr [] | Some v \<Rightarrow> v)")
      case (Inl e)
      with Some show ?thesis
        by (simp add: refinement_def finish_def)
    next
      case (Inr ar)
      define st where "st = \<lparr>current_description = d, stylist_output = so, results = res,
        disk = fs, trace = evs\<rparr>"
      obtain f st' where run: "for_loop w m out ar [1, 2, 3] st = (f, st')"
        by (cases "for_loop w m out ar [1, 2, 3] st")
      from assms have "scores_printable (results st)"
        by (simp add: st_def scores_printable_def)
      from for_loop_scores [OF run this]
      have p: "scores_printable (results st')" and x: "\<forall>c. f = Exit c \<longrightarrow> c = 1"
        by simp_all
      from p have ps: "print_summary ((results st')\<lparr>output_path := Some out\<rparr>) = None"
        by (simp add: print_summary_def scores_printable_def split: option.splits json.splits)
      from refinement_loop [OF Some Inr run [unfolded st_def]]
      have "refinement w m out so res fs evs =
          (case f of
             Abort e \<Rightarrow> Raised e
           | Exit c \<Rightarrow> Exited c
           | _ \<Rightarrow> Returned ((results st')\<lparr>output_path := Some out\<rparr>),
           disk st', trace st')" .
      with ps x show ?thesis
        by (cases f) (simp_all add: finish_def)
    qed
  qed
  from A render_failure_breaks show ?thesis
    by blast
qed

text \<open>
  The amended claim at a run whose first image fails with a revision and whose image
  service is down from the second iteration on: the run returns with the error
  recorded, and the exit code is 0.
\<close>

theorem exit_code_after_refinement_witness:
  "final_scores results0 = None \<and>
   exit_code (fst (finish (refinement late_failure_world ''m'' ''d.png'' stylist0 results0
      Map.empty []))) = 0 \<and>
   map_option error (returned (fst (refinement late_failure_world ''m'' ''d.png'' stylist0 results0
      Map.empty []))) =
     Some (Some ''Image generation failed after 3 attempts. Last error: 503 unavailable'') \<and>
   build_prompt (current_description state0) ''16:9'' = Inr (quality_prefix @ ''A'') \<and>
   fst (generate_image (api_key_env late_failure_world) (image_service late_failure_world 2)
          (disk state0) (quality_prefix @ ''A'') ''d.png'' ''16:9'') =
     Raised (exhausted_error (PyExc ''ServerError'' ''503 unavailable'' None)) \<and>
   fst (for_loop late_failure_world ''m'' ''d.png'' ''16:9'' [2, 3] state0) = Break \<and>
   error (results (snd (for_loop late_failure_world ''m'' ''d.png'' ''16:9'' [2, 3] state0))) =
     Some ''Image generation failed after 3 attempts. Last error: 503 unavailable''"
proof -
  have h: "final_scores results0 = None"
    by (simp add: results0_def)
  have r: "map_option error (returned (fst (refinement late_failure_world ''m'' ''d.png'' stylist0
      results0 Map.empty []))) =
     Some (Some ''Image generation failed after 3 attempts. Last error: 503 unavailable'')"
    by (simp add: run_defs late_failure_world_def)
  have b: "build_prompt (current_description state0) ''16:9'' = Inr (quality_prefix @ ''A'')"
    by (simp add: build_prompt_def state0_def)
  obtain fs1 evs1 where g: "generate_image (api_key_env late_failure_world)
      (image_service late_failure_world 2) (disk state0) (quality_prefix @ ''A'') ''d.png'' ''16:9''
      = (Raised (exhausted_error (PyExc ''ServerError'' ''503 unavailable'' None)), fs1, evs1)"
    by (simp add: generate_image_def get_api_key_def try_attempt_def upt_0_3 MAX_RETRIES_def
        late_failure_world_def example_world_def)
  have m: "exc_msg (exhausted_error (PyExc ''ServerError'' ''503 unavailable'' None)) =
      ''Image generation failed after 3 attempts. Last error: 503 unavailable''"
    by (simp add: exhausted_error_def MAX_RETRIES_def str_nat.simps digit_char_def)
  from exit_code_after_refinement [OF h, of late_failure_world "''m''" "''d.png''" stylist0
      Map.empty "[]"]
  have A: "exit_code (fst (finish (refinement late_failure_world ''m'' ''d.png'' stylist0 results0
        Map.empty []))) =
      (case fst (refinement late_failure_world ''m'' ''d.png'' stylist0 results0 Map.empty []) of
         Returned r \<Rightarrow> 0 | Raised e \<Rightarrow> 1 | Exited c \<Rightarrow> 1)"
    and B: "fst (for_loop late_failure_world ''m'' ''d.png'' ''16:9'' [2, 3] state0) = Break \<and>
      error (results (snd (for_loop late_failure_world ''m'' ''d.png'' ''16:9'' [2, 3] state0))) =
        Some (exc_msg (exhausted_error (PyExc ''ServerError'' ''503 unavailable'' None)))"
    using b g by blast+
  from r have "\<exists>x. fst (refinement late_failure_world ''m'' ''d.png'' stylist0 results0
      Map.empty []) = Returned x"
    by (cases "fst (refinement late_failure_world ''m'' ''d.png'' stylist0 results0 Map.empty [])")
      (simp_all add: returned_def)
  with A have "exit_code (fst (finish (refinement late_failure_world ''m'' ''d.png'' stylist0
      results0 Map.empty []))) = 0"
    by auto
  with h r b g B m show ?thesis
    by simp
qed

subsection \<open>C10: a response that breaks the revision pairing\<close>

text \<open>
  The claim says that a response with a revision although it passes, or without one
  although it fails, is a stage failure that reaches the caller. Here the critic's model
  passes the image and sends the revision \<^verbatim>\<open>B\<close>, and in a second run it fails the image and
  sends none: in both runs the verdict is in the returned history, the run is accepted,
  and no error is recorded.
\<close>

theorem pairing_violation_counterexample:
  "map_option (map revision_pairing \<circ> iterations)
     (returned (fst (refinement overeager_world ''m'' ''d.png'' stylist0 results0 Map.empty [])))
     = Some [(True, JStr ''B'')] \<and>
   map_option accepted
     (returned (fst (refinement overeager_world ''m'' ''d.png'' stylist0 results0 Map.empty [])))
     = Some (Some True) \<and>
   map_option error
     (returned (fst (refinement overeager_world ''m'' ''d.png'' stylist0 results0 Map.empty [])))
     = Some None \<and>
   map_option (map revision_pairing \<circ> iterations)
     (returned (fst (refinement abstaining_world ''m'' ''d.png'' stylist0 results0 Map.empty [])))
     = Some [(False, JNull)] \<and>
   map_option accepted
     (returned (fst (refinement abstaining_world ''m'' ''d.png'' stylist0 results0 Map.empty [])))
     = Some (Some True) \<and>
   map_option error
     (returned (fst (refinement abstaining_world ''m'' ''d.png'' stylist0 results0 Map.empty [])))
     = Some None"
  by (simp add: run_defs overeager_world_def abstaining_world_def revision_pairing_def)

text \<open>
  C10, amended. A critic response that breaks the revision pairing (no revision
  although primary pass is false, or a revision although it is true) is not a failure:
  once \<^verbatim>\<open>run_critic\<close> has returned it, in any iteration, it is appended to the history, the
  loop ends with \<^verbatim>\<open>break\<close>, the image is recorded as accepted with the verdict's scores,
  and no error is recorded and no further call made.
\<close>

theorem pairing_violation_is_accepted:
  assumes "render_evaluate w m out ar i st = Verdict v st1"
    and "(\<not> primary_pass v \<and> dict_get v ''revised_description'' JNull = JNull) \<or>
         (primary_pass v \<and> dict_get v ''revised_description'' JNull \<noteq> JNull)"
  shows "\<exists>st'. for_loop w m out ar (i # rest) st = (Break, st') \<and>
           accepted (results st') = Some True \<and>
           final_scores (results st') = Some (dict_get v ''scores'' (JObj [])) \<and>
           iterations (results st') = iterations (results st) @ [v] \<and>
           error (results st') = error (results st) \<and>
           trace st' = trace st1"
  using assms render_evaluate_Verdict_appended [OF assms(1)]
  by (auto simp: loop_body_def acceptance_def accept_def Let_def)

text \<open>
  The amended claim at a first verdict that passes and carries the revision \<^verbatim>\<open>B\<close>.
\<close>

theorem pairing_violation_is_accepted_witness:
  "(case render_evaluate overeager_world ''m'' ''d.png'' ''16:9'' 1 state0 of
      Verdict v st1 \<Rightarrow> primary_pass v \<and> dict_get v ''revised_description'' JNull = JStr ''B''
    | Ended f st' \<Rightarrow> False) \<and>
   fst (for_loop overeager_world ''m'' ''d.png'' ''16:9'' [1, 2, 3] state0) = Break \<and>
   accepted (results (snd (for_loop overeager_world ''m'' ''d.png'' ''16:9'' [1, 2, 3] state0)))
     = Some True \<and>
   error (results (snd (for_loop overeager_world ''m'' ''d.png'' ''16:9'' [1, 2, 3] state0)))
     = None"
proof -
  have h: "case render_evaluate overeager_world ''m'' ''d.png'' ''16:9'' 1 state0 of
      Verdict v st1 \<Rightarrow> primary_pass v \<and> dict_get v ''revised_description'' JNull = JStr ''B''
    | Ended f st' \<Rightarrow> False"
    by (simp add: run_defs overeager_world_def)
  then obtain v st1
    where ev: "render_evaluate overeager_world ''m'' ''d.png'' ''16:9'' 1 state0 = Verdict v st1"
      and pp: "primary_pass v" and rv: "dict_get v ''revised_description'' JNull = JStr ''B''"
    by (cases "render_evaluate overeager_world ''m'' ''d.png'' ''16:9'' 1 state0") auto
  from pp rv have viol:
    "(\<not> primary_pass v \<and> dict_get v ''revised_description'' JNull = JNull) \<or>
     (primary_pass v \<and> dict_get v ''revised_description'' JNull \<noteq> JNull)"
    by simp
  have e0: "error (results state0) = None"
    by (simp add: state0_def results0_def)
  from pairing_violation_is_accepted [OF ev viol, of "[2, 3]"] h e0 show ?thesis
    by auto
qed

end
